theory Spec2Isabelle
  imports Main "HOL-Library.Word" "HOL-Library.AList"
begin

section \<open>Reference-counted objects (LiteCore/Support/RefCounted.hh)\<close>

text \<open>
  Objects live in a store indexed by address. A pointer is an optional address, the
  null pointer being \<open>None\<close>. The counter of the class is
  \<^verbatim>\<open>std::atomic<int32_t> _refCount {0}\<close>: a 32-bit word whose increment and
  decrement wrap around in two's complement, as the arithmetic of an atomic integer
  does, and which the comparison \<^verbatim>\<open><= 0\<close> reads as a signed value.

  \<^verbatim>\<open>delete this\<close> removes the object from the store and appends a line to the log
  of destructor runs. Reaching through a pointer whose object is not in the store
  (never constructed, or deleted) has no defined behaviour in C++; the model makes
  it the result \<open>None\<close> of the operation.

  The owning handles \<^verbatim>\<open>Retained<T>\<close> are variables of the program: each has an
  identity, and the store keeps the \<^verbatim>\<open>_ref\<close> field of each, so that two names
  of one handle (self-assignment) and two handles of one object are told apart.
\<close>

type_synonym addr = nat
type_synonym ptr = "addr option"
type_synonym hid = nat
type_synonym int32_t = "32 word"

record RefCounted =
  refCount :: int32_t

record store =
  objects :: "addr \<rightharpoonup> RefCounted"
  deleted :: "addr list"
  handles :: "hid \<Rightarrow> ptr"

text \<open>\<^verbatim>\<open>std::atomic<int32_t> _refCount {0}\<close>: the state of an object as constructed.\<close>

definition RefCounted_new :: RefCounted where
  "RefCounted_new = \<lparr>refCount = 0\<rparr>"

text \<open>Constructing an object at an address the allocator chose.\<close>

definition construct :: "addr \<Rightarrow> store \<Rightarrow> store" where
  "construct a s = s\<lparr>objects := (objects s)(a \<mapsto> RefCounted_new)\<rparr>"

text \<open>\<^verbatim>\<open>delete this\<close>\<close>

definition delete_this :: "addr \<Rightarrow> store \<Rightarrow> store" where
  "delete_this a s = s\<lparr>objects := (objects s)(a := None), deleted := a # deleted s\<rparr>"

text \<open>\<^verbatim>\<open>void _retain() noexcept { ++_refCount; }\<close>\<close>

definition RefCounted_retain :: "addr \<Rightarrow> store \<Rightarrow> store option" where
  "RefCounted_retain a s =
     (case objects s a of
        None \<Rightarrow> None
      | Some obj \<Rightarrow>
          Some (s\<lparr>objects := (objects s)(a \<mapsto> obj\<lparr>refCount := refCount obj + 1\<rparr>)\<rparr>))"

text \<open>\<^verbatim>\<open>void _release() noexcept { if (--_refCount <= 0) delete this; }\<close>\<close>

definition RefCounted_release :: "addr \<Rightarrow> store \<Rightarrow> store option" where
  "RefCounted_release a s =
     (case objects s a of
        None \<Rightarrow> None
      | Some obj \<Rightarrow>
          (let s' = s\<lparr>objects := (objects s)(a \<mapsto> obj\<lparr>refCount := refCount obj - 1\<rparr>)\<rparr>
           in if sint (refCount obj - 1) \<le> 0 then Some (delete_this a s') else Some s'))"

text \<open>\<^verbatim>\<open>retain(REFCOUNTED *r) { if (r) r->_retain(); return r; }\<close>\<close>

definition retain :: "ptr \<Rightarrow> store \<Rightarrow> (ptr \<times> store) option" where
  "retain r s =
     (case r of
        None \<Rightarrow> Some (r, s)
      | Some a \<Rightarrow> map_option (Pair r) (RefCounted_retain a s))"

text \<open>\<^verbatim>\<open>release(RefCounted *r) { if (r) r->_release(); }\<close>\<close>

definition release :: "ptr \<Rightarrow> store \<Rightarrow> store option" where
  "release r s =
     (case r of
        None \<Rightarrow> Some s
      | Some a \<Rightarrow> RefCounted_release a s)"

subsection \<open>Sequences of retains and releases of one pointer\<close>

datatype rc_op = Retain | Release

fun rc_step :: "ptr \<Rightarrow> rc_op \<Rightarrow> store \<Rightarrow> store option" where
  "rc_step r Retain s = map_option snd (retain r s)"
| "rc_step r Release s = release r s"

fun rc_run :: "ptr \<Rightarrow> rc_op list \<Rightarrow> store \<Rightarrow> store option" where
  "rc_run r [] s = Some s"
| "rc_run r (x # xs) s = (case rc_step r x s of None \<Rightarrow> None | Some s' \<Rightarrow> rc_run r xs s')"

subsection \<open>The owning handle \<^verbatim>\<open>Retained<T>\<close>\<close>

text \<open>\<^verbatim>\<open>T* get() const noexcept {return _ref;}\<close>\<close>

definition get :: "hid \<Rightarrow> store \<Rightarrow> ptr" where
  "get this s = handles s this"

definition set_ref :: "hid \<Rightarrow> ptr \<Rightarrow> store \<Rightarrow> store" where
  "set_ref this p s = s\<lparr>handles := (handles s)(this := p)\<rparr>"

text \<open>\<^verbatim>\<open>Retained() noexcept :_ref(nullptr) { }\<close>\<close>

definition Retained_default :: "hid \<Rightarrow> store \<Rightarrow> store" where
  "Retained_default this s = set_ref this None s"

text \<open>\<^verbatim>\<open>Retained(T *t) noexcept :_ref(retain(t)) { }\<close>\<close>

definition Retained_ptr :: "hid \<Rightarrow> ptr \<Rightarrow> store \<Rightarrow> store option" where
  "Retained_ptr this t s = map_option (\<lambda>(p, s'). set_ref this p s') (retain t s)"

text \<open>\<^verbatim>\<open>Retained(const Retained &r) noexcept :_ref(retain(r._ref)) { }\<close>\<close>

definition Retained_copy :: "hid \<Rightarrow> hid \<Rightarrow> store \<Rightarrow> store option" where
  "Retained_copy this r s = map_option (\<lambda>(p, s'). set_ref this p s') (retain (handles s r) s)"

text \<open>\<^verbatim>\<open>Retained(Retained &&r) noexcept :_ref(r._ref) {r._ref = nullptr;}\<close>\<close>

definition Retained_move :: "hid \<Rightarrow> hid \<Rightarrow> store \<Rightarrow> store" where
  "Retained_move this r s = set_ref r None (set_ref this (handles s r) s)"

text \<open>\<^verbatim>\<open>~Retained() {release(_ref);}\<close>\<close>

definition Retained_destroy :: "hid \<Rightarrow> store \<Rightarrow> store option" where
  "Retained_destroy this s = release (handles s this) s"

text \<open>
  \<^verbatim>\<open>Retained& operator=(T *t) noexcept { retain(t); release(_ref); _ref = t; return *this; }\<close>
\<close>

definition assign_ptr :: "hid \<Rightarrow> ptr \<Rightarrow> store \<Rightarrow> store option" where
  "assign_ptr this t s =
     (case retain t s of
        None \<Rightarrow> None
      | Some (_, s1) \<Rightarrow>
          (case release (handles s1 this) s1 of
             None \<Rightarrow> None
           | Some s2 \<Rightarrow> Some (set_ref this t s2)))"

text \<open>\<^verbatim>\<open>Retained& operator=(const Retained &r) noexcept { return *this = r._ref; }\<close>\<close>

definition assign_copy :: "hid \<Rightarrow> hid \<Rightarrow> store \<Rightarrow> store option" where
  "assign_copy this r s = assign_ptr this (handles s r) s"

text \<open>
  \<^verbatim>\<open>Retained& operator= (Retained &&r) noexcept
      { release(_ref); _ref = r._ref; r._ref = nullptr; return *this; }\<close>
\<close>

definition assign_move :: "hid \<Rightarrow> hid \<Rightarrow> store \<Rightarrow> store option" where
  "assign_move this r s =
     (case release (handles s this) s of
        None \<Rightarrow> None
      | Some s1 \<Rightarrow> Some (set_ref r None (set_ref this (handles s1 r) s1)))"

subsection \<open>The instance counter \<^verbatim>\<open>InstanceCounted\<close>\<close>

text \<open>
  \<^verbatim>\<open>static std::atomic_int gObjectCount\<close> is the one piece of state. The class
  declares a default constructor and a destructor and nothing else, so the copy
  constructor is the one the compiler generates: it copies the members (there are
  none) and does not run the body of \<^verbatim>\<open>InstanceCounted()\<close>. The declared
  destructor keeps the compiler from generating a move constructor, so a move is a
  copy.
\<close>

text \<open>\<^verbatim>\<open>InstanceCounted() {++gObjectCount;}\<close>\<close>

definition InstanceCounted_ctor :: "int32_t \<Rightarrow> int32_t" where
  "InstanceCounted_ctor gObjectCount = gObjectCount + 1"

text \<open>The implicit \<^verbatim>\<open>InstanceCounted(const InstanceCounted&)\<close>.\<close>

definition InstanceCounted_copy_ctor :: "int32_t \<Rightarrow> int32_t" where
  "InstanceCounted_copy_ctor gObjectCount = gObjectCount"

text \<open>\<^verbatim>\<open>~InstanceCounted() {--gObjectCount;}\<close>\<close>

definition InstanceCounted_dtor :: "int32_t \<Rightarrow> int32_t" where
  "InstanceCounted_dtor gObjectCount = gObjectCount - 1"

datatype ic_event = Construct | CopyConstruct | Destroy

fun ic_step :: "ic_event \<Rightarrow> int32_t \<Rightarrow> int32_t" where
  "ic_step Construct g = InstanceCounted_ctor g"
| "ic_step CopyConstruct g = InstanceCounted_copy_ctor g"
| "ic_step Destroy g = InstanceCounted_dtor g"

fun ic_run :: "ic_event list \<Rightarrow> int32_t \<Rightarrow> int32_t" where
  "ic_run [] g = g"
| "ic_run (e # es) g = ic_run es (ic_step e g)"

text \<open>
  The number of instances alive after a sequence of events, starting from \<open>n\<close>:
  every constructor brings one instance to life, the destructor ends one.
\<close>

fun live_instances :: "ic_event list \<Rightarrow> int \<Rightarrow> int" where
  "live_instances [] n = n"
| "live_instances (Construct # es) n = live_instances es (n + 1)"
| "live_instances (CopyConstruct # es) n = live_instances es (n + 1)"
| "live_instances (Destroy # es) n = live_instances es (n - 1)"

section \<open>The socket bridge (Replicator/c4Socket+Internal.hh)\<close>

text \<open>
  The header declares the conversions, the registry and the provider; their bodies
  are in no file of the sources at hand. The definitions of this section follow the
  design document, each saying so.
\<close>

subsection \<open>Addresses\<close>

record C4Address =
  scheme :: string
  hostname :: string
  port :: nat
  path :: string

record Address =
  scheme :: string
  hostname :: string
  port :: nat
  path :: string

text \<open>
  Modelled from the spec: the body of
  \<^verbatim>\<open>websocket::Address addressFrom(const C4Address &addr)\<close> is missing. "host-struct
  \<open>\<rightarrow>\<close> internal value (drops nothing; all fields map 1:1)".
\<close>

definition addressFrom :: "C4Address \<Rightarrow> Address" where
  "addressFrom addr =
     \<lparr>Address.scheme = C4Address.scheme addr, hostname = C4Address.hostname addr,
      port = C4Address.port addr, path = C4Address.path addr\<rparr>"

text \<open>
  Modelled from the spec: the body of \<^verbatim>\<open>C4Address c4AddressFrom(const Address &address)\<close>
  is missing. "internal value \<open>\<rightarrow>\<close> host-struct (same)".
\<close>

definition c4AddressFrom :: "Address \<Rightarrow> C4Address" where
  "c4AddressFrom address =
     \<lparr>C4Address.scheme = Address.scheme address, hostname = Address.hostname address,
      port = Address.port address, path = Address.path address\<rparr>"

text \<open>
  Modelled from the spec: the body of
  \<^verbatim>\<open>addressFrom(const C4Address &addr, C4String remoteDatabaseName)\<close> is missing.
  "host-struct + explicit remote-database-name override \<open>\<rightarrow>\<close> internal value, where
  the override replaces the path-derived database name". How the new path is put
  together from the struct's path and the name is not said: it is the parameter
  \<open>db_path\<close>.
\<close>

definition addressFrom_named ::
  "(string \<Rightarrow> string \<Rightarrow> string) \<Rightarrow> C4Address \<Rightarrow> string \<Rightarrow> Address" where
  "addressFrom_named db_path addr remoteDatabaseName =
     (addressFrom addr)\<lparr>Address.path := db_path (C4Address.path addr) remoteDatabaseName\<rparr>"

subsection \<open>The factory registry\<close>

text \<open>
  A callback slot is a function pointer: the address of the function, or null.
  The table has the four slots the design names and the host's own pointer.
\<close>

type_synonym callback = nat

record C4SocketFactory =
  open_cb :: "callback option"
  send_cb :: "callback option"
  completedReceive_cb :: "callback option"
  close_cb :: "callback option"
  host_context :: nat

datatype error = ConfigurationError

text \<open>
  Modelled from the spec: the body of \<^verbatim>\<open>C4Provider::validateFactory\<close> is missing.
  "fails with a configuration error if any mandatory callback slot (open, send,
  acknowledge-received-bytes, close) is absent".
\<close>

definition validateFactory :: "C4SocketFactory \<Rightarrow> error + unit" where
  "validateFactory factory =
     (if open_cb factory = None \<or> send_cb factory = None
         \<or> completedReceive_cb factory = None \<or> close_cb factory = None
      then Inl ConfigurationError else Inr ())"

text \<open>
  Modelled from the spec: the body of \<^verbatim>\<open>C4Provider::registerFactory\<close> is missing.
  "validates table; on success, atomically replaces the process-wide active table;
  on failure, reports an error without mutating existing state". The state is the
  static pointer \<^verbatim>\<open>sRegisteredFactory\<close>, null until a table is installed.
\<close>

definition registerFactory ::
  "C4SocketFactory \<Rightarrow> C4SocketFactory option \<Rightarrow> (error + unit) \<times> C4SocketFactory option" where
  "registerFactory factory sRegisteredFactory =
     (case validateFactory factory of
        Inl e \<Rightarrow> (Inl e, sRegisteredFactory)
      | Inr _ \<Rightarrow> (Inr (), Some factory))"

text \<open>
  Modelled from the spec: the body of \<^verbatim>\<open>C4Provider::registeredFactory\<close> and the
  value of \<^verbatim>\<open>C4DefaultSocketFactory\<close> are missing. "returns the active table, lazily
  installing a built-in default implementation on first access if no host
  registration has occurred yet". The default table is a parameter.
\<close>

definition registeredFactory ::
  "C4SocketFactory \<Rightarrow> C4SocketFactory option \<Rightarrow> C4SocketFactory \<times> C4SocketFactory option" where
  "registeredFactory C4DefaultSocketFactory sRegisteredFactory =
     (case sRegisteredFactory of
        None \<Rightarrow> (C4DefaultSocketFactory, Some C4DefaultSocketFactory)
      | Some factory \<Rightarrow> (factory, sRegisteredFactory))"

subsection \<open>Bindings of socket tokens\<close>











section \<open>Example states\<close>

definition empty_store :: store where
  "empty_store = \<lparr>objects = Map.empty, deleted = [], handles = (\<lambda>_. None)\<rparr>"

text \<open>One object, at address 7, as constructed: nothing has retained it yet.\<close>

definition fresh_store :: store where
  "fresh_store = construct 7 empty_store"

text \<open>
  The same object held by handle 0, constructed from the pointer: the count is 1.
\<close>

definition one_owner :: store where
  "one_owner =
     \<lparr>objects = [7 \<mapsto> \<lparr>refCount = 1\<rparr>], deleted = [], handles = (\<lambda>_. None)(0 := Some 7)\<rparr>"

text \<open>And by handle 1 as well, copied from handle 0: the count is 2.\<close>

definition two_owners :: store where
  "two_owners =
     \<lparr>objects = [7 \<mapsto> \<lparr>refCount = 2\<rparr>], deleted = [],
      handles = (\<lambda>_. None)(0 := Some 7, 1 := Some 7)\<rparr>"

text \<open>
  Two objects, each with one owner: handle 0 holds the object at 7, handle 1 the
  object at 8.
\<close>

definition two_objects :: store where
  "two_objects =
     \<lparr>objects = [7 \<mapsto> \<lparr>refCount = 1\<rparr>, 8 \<mapsto> \<lparr>refCount = 1\<rparr>], deleted = [],
      handles = (\<lambda>_. None)(0 := Some 7, 1 := Some 8)\<rparr>"

text \<open>
  The object at 7 held by handle 0, after \<open>2\<^sup>3\<^sup>1 - 1\<close> further retains: the
  counter holds \<open>2\<^sup>3\<^sup>1\<close>, which reads -2147483648.
\<close>

definition wrapped_owner :: store where
  "wrapped_owner =
     \<lparr>objects = [7 \<mapsto> \<lparr>refCount = 2147483648\<rparr>], deleted = [],
      handles = (\<lambda>_. None)(0 := Some 7)\<rparr>"


definition example_factory :: C4SocketFactory where
  "example_factory =
     \<lparr>open_cb = Some 1, send_cb = Some 2, completedReceive_cb = Some 3, close_cb = Some 4,
      host_context = 0\<rparr>"

text \<open>A second complete table, standing for the built-in default.\<close>

definition example_default :: C4SocketFactory where
  "example_default =
     \<lparr>open_cb = Some 11, send_cb = Some 12, completedReceive_cb = Some 13, close_cb = Some 14,
      host_context = 0\<rparr>"




section \<open>Retain and release\<close>

subsection \<open>Single steps and runs\<close>

lemma rc_run_append:
  "rc_run r (xs @ ys) s = (case rc_run r xs s of None \<Rightarrow> None | Some s' \<Rightarrow> rc_run r ys s')"
  by (induction xs arbitrary: s) (auto split: option.splits)

lemma retain_live:
  "objects s a = Some obj \<Longrightarrow>
   retain (Some a) s = Some (Some a, s\<lparr>objects := (objects s)(a \<mapsto> obj\<lparr>refCount := refCount obj + 1\<rparr>)\<rparr>)"
  by (simp add: retain_def RefCounted_retain_def)

lemma release_live:
  "objects s a = Some obj \<Longrightarrow>
   release (Some a) s =
     (if sint (refCount obj - 1) \<le> 0
      then Some (s\<lparr>objects := (objects s)(a := None), deleted := a # deleted s\<rparr>)
      else Some (s\<lparr>objects := (objects s)(a \<mapsto> obj\<lparr>refCount := refCount obj - 1\<rparr>)\<rparr>))"
  by (simp add: release_def RefCounted_release_def delete_this_def)

lemma rc_run_retains:
  "objects s a = Some obj \<Longrightarrow>
   rc_run (Some a) (replicate n Retain) s =
     Some (s\<lparr>objects := (objects s)(a \<mapsto> obj\<lparr>refCount := refCount obj + of_nat n\<rparr>)\<rparr>)"
proof (induction n arbitrary: s obj)
  case 0
  then show ?case by (simp add: map_upd_triv)
next
  case (Suc n)
  let ?o1 = "obj\<lparr>refCount := refCount obj + 1\<rparr>"
  let ?s1 = "s\<lparr>objects := (objects s)(a \<mapsto> ?o1)\<rparr>"
  have live1: "objects ?s1 a = Some ?o1" by simp
  have "rc_run (Some a) (replicate (Suc n) Retain) s = rc_run (Some a) (replicate n Retain) ?s1"
    using Suc.prems by (simp add: retain_live)
  also have "\<dots> = Some (?s1\<lparr>objects := (objects ?s1)(a \<mapsto> ?o1\<lparr>refCount := refCount ?o1 + of_nat n\<rparr>)\<rparr>)"
    by (rule Suc.IH [OF live1])
  also have "\<dots> = Some (s\<lparr>objects := (objects s)(a \<mapsto> obj\<lparr>refCount := refCount obj + of_nat (Suc n)\<rparr>)\<rparr>)"
    by (simp add: add.assoc)
  finally show ?case .
qed

lemma rc_run_releases:
  "objects s a = Some obj \<Longrightarrow>
   (\<And>j. 1 \<le> j \<Longrightarrow> j \<le> k \<Longrightarrow> 0 < sint (refCount obj - of_nat j)) \<Longrightarrow>
   rc_run (Some a) (replicate k Release) s =
     Some (s\<lparr>objects := (objects s)(a \<mapsto> obj\<lparr>refCount := refCount obj - of_nat k\<rparr>)\<rparr>)"
proof (induction k arbitrary: s obj)
  case 0
  then show ?case by (simp add: map_upd_triv)
next
  case (Suc k)
  let ?o1 = "obj\<lparr>refCount := refCount obj - 1\<rparr>"
  let ?s1 = "s\<lparr>objects := (objects s)(a \<mapsto> ?o1)\<rparr>"
  have pos1: "0 < sint (refCount obj - 1)" using Suc.prems(2) [of 1] by simp
  have live1: "objects ?s1 a = Some ?o1" by simp
  have later: "0 < sint (refCount ?o1 - of_nat j)" if "1 \<le> j" "j \<le> k" for j
    using Suc.prems(2) [of "Suc j"] that by (simp add: diff_diff_eq)
  have "rc_run (Some a) (replicate (Suc k) Release) s = rc_run (Some a) (replicate k Release) ?s1"
    using Suc.prems(1) pos1 by (simp add: release_live)
  also have "\<dots> = Some (?s1\<lparr>objects := (objects ?s1)(a \<mapsto> ?o1\<lparr>refCount := refCount ?o1 - of_nat k\<rparr>)\<rparr>)"
    by (rule Suc.IH [OF live1 later])
  also have "\<dots> = Some (s\<lparr>objects := (objects s)(a \<mapsto> obj\<lparr>refCount := refCount obj - of_nat (Suc k)\<rparr>)\<rparr>)"
    by (simp add: diff_diff_eq)
  finally show ?case .
qed

lemma sint_of_nat_small: "n < 2 ^ 31 \<Longrightarrow> sint (of_nat n :: int32_t) = int n"
proof -
  assume "n < 2 ^ 31"
  then have "int n < 2 ^ 31" by (metis of_nat_less_iff of_nat_numeral of_nat_power)
  then have "signed_take_bit 31 (int n) = int n"
    by (intro signed_take_bit_int_eq_self) simp_all
  then show ?thesis by (simp add: signed_of_nat)
qed

text \<open>The state after \<open>n\<close> retains and \<open>k < n\<close> releases of a fresh object.\<close>

lemma retains_releases_partial:
  assumes live: "objects s a = Some RefCounted_new" and k: "k < n" and n: "n \<le> 2 ^ 31"
  shows "rc_run (Some a) (replicate n Retain @ replicate k Release) s =
           Some (s\<lparr>objects := (objects s)(a \<mapsto> \<lparr>refCount = of_nat (n - k)\<rparr>)\<rparr>)"
proof -
  let ?o = "RefCounted_new\<lparr>refCount := refCount RefCounted_new + of_nat n\<rparr>"
  let ?s = "s\<lparr>objects := (objects s)(a \<mapsto> ?o)\<rparr>"
  have cnt: "refCount ?o = of_nat n" by (simp add: RefCounted_new_def)
  have live': "objects ?s a = Some ?o" by simp
  have pos: "0 < sint (refCount ?o - of_nat j)" if "1 \<le> j" "j \<le> k" for j
  proof -
    have eq: "refCount ?o - of_nat j = (of_nat (n - j) :: int32_t)"
      using that k by (simp add: cnt)
    have small: "n - j < 2 ^ 31" using that k n by arith
    have "0 < n - j" using that k by simp
    then have "0 < sint (of_nat (n - j) :: int32_t)"
      by (simp only: sint_of_nat_small [OF small] of_nat_0_less_iff)
    then show ?thesis by (simp only: eq)
  qed
  have "rc_run (Some a) (replicate n Retain @ replicate k Release) s =
          rc_run (Some a) (replicate k Release) ?s"
    by (simp add: rc_run_append rc_run_retains [OF live])
  also have "\<dots> = Some (?s\<lparr>objects := (objects ?s)(a \<mapsto> ?o\<lparr>refCount := refCount ?o - of_nat k\<rparr>)\<rparr>)"
    by (rule rc_run_releases [OF live' pos])
  also have "\<dots> = Some (s\<lparr>objects := (objects s)(a \<mapsto> \<lparr>refCount = of_nat (n - k)\<rparr>)\<rparr>)"
    using k by (simp add: RefCounted_new_def)
  finally show ?thesis .
qed

text \<open>
  Claim C1, within the range of the counter. An object as constructed (count 0) is
  retained \<open>N\<close> times and then released \<open>N\<close> times, with
  \<open>1 \<le> N \<le> 2\<^sup>3\<^sup>1\<close>. After the retains and any \<open>k < N\<close> of the releases
  the object is still in the store, with count \<open>N - k\<close>, and no destructor has
  run. The last release takes the count from 1 to 0 and deletes the object: the whole
  run is defined, the object is gone and the log of destructor runs has exactly one
  new line, for this object.
\<close>

theorem balanced_retain_release:
  assumes live: "objects s a = Some RefCounted_new" and N1: "1 \<le> N" and N2: "N \<le> 2 ^ 31"
  shows "(\<forall>k<N. rc_run (Some a) (replicate N Retain @ replicate k Release) s =
                  Some (s\<lparr>objects := (objects s)(a \<mapsto> \<lparr>refCount = of_nat (N - k)\<rparr>)\<rparr>))
       \<and> rc_run (Some a) (replicate N Retain @ replicate N Release) s =
           Some (s\<lparr>objects := (objects s)(a := None), deleted := a # deleted s\<rparr>)"
proof (intro conjI allI impI)
  fix k assume "k < N"
  then show "rc_run (Some a) (replicate N Retain @ replicate k Release) s =
               Some (s\<lparr>objects := (objects s)(a \<mapsto> \<lparr>refCount = of_nat (N - k)\<rparr>)\<rparr>)"
    by (rule retains_releases_partial [OF live _ N2])
next
  let ?s = "s\<lparr>objects := (objects s)(a \<mapsto> \<lparr>refCount = 1\<rparr>)\<rparr>"
  have one: "N - (N - 1) = 1" using N1 by simp
  have "N - 1 < N" using N1 by simp
  from retains_releases_partial [OF live this N2]
  have part: "rc_run (Some a) (replicate N Retain @ replicate (N - 1) Release) s = Some ?s"
    by (simp only: one of_nat_1)
  obtain m where m: "N = Suc m" using N1 by (cases N) simp_all
  have split: "replicate N Release = replicate (N - 1) Release @ [Release]"
    by (simp add: m replicate_append_same)
  have "replicate N Retain @ replicate N Release =
          (replicate N Retain @ replicate (N - 1) Release) @ [Release]"
    by (subst split) simp
  then have "rc_run (Some a) (replicate N Retain @ replicate N Release) s =
          rc_run (Some a) ((replicate N Retain @ replicate (N - 1) Release) @ [Release]) s"
    by (rule arg_cong)
  also have "\<dots> = rc_run (Some a) [Release] ?s"
    by (subst rc_run_append) (simp only: part option.case)
  also have "\<dots> = Some (s\<lparr>objects := (objects s)(a := None), deleted := a # deleted s\<rparr>)"
    by (simp add: release_live [where obj = "\<lparr>refCount = 1\<rparr>"])
  finally show "rc_run (Some a) (replicate N Retain @ replicate N Release) s =
                  Some (s\<lparr>objects := (objects s)(a := None), deleted := a # deleted s\<rparr>)" .
qed

theorem balanced_retain_release_witness:
  "objects fresh_store 7 = Some RefCounted_new
   \<and> rc_run (Some 7) (replicate 2 Retain @ replicate 1 Release) fresh_store =
       Some (fresh_store\<lparr>objects := (objects fresh_store)(7 \<mapsto> \<lparr>refCount = 1\<rparr>)\<rparr>)
   \<and> rc_run (Some 7) (replicate 2 Retain @ replicate 2 Release) fresh_store =
       Some (fresh_store\<lparr>objects := (objects fresh_store)(7 := None),
                         deleted := 7 # deleted fresh_store\<rparr>)"
proof -
  have live: "objects fresh_store 7 = Some RefCounted_new"
    by (simp add: fresh_store_def construct_def)
  have p1: "(1::nat) \<le> 2" and p2: "(2::nat) \<le> 2 ^ 31" and k: "(1::nat) < 2" by simp_all
  note run = balanced_retain_release [OF live p1 p2]
  from run have "rc_run (Some 7) (replicate 2 Retain @ replicate 1 Release) fresh_store =
       Some (fresh_store\<lparr>objects := (objects fresh_store)(7 \<mapsto> \<lparr>refCount = of_nat (2 - 1)\<rparr>)\<rparr>)"
    using k by blast
  then have "rc_run (Some 7) (replicate 2 Retain @ replicate 1 Release) fresh_store =
       Some (fresh_store\<lparr>objects := (objects fresh_store)(7 \<mapsto> \<lparr>refCount = 1\<rparr>)\<rparr>)"
    by simp
  with live run show ?thesis by blast
qed

lemma retain_then_release:
  assumes live: "objects s a = Some obj" and neg: "sint (refCount obj + of_nat n - 1) \<le> 0"
  shows "rc_run (Some a) (replicate n Retain @ [Release]) s =
           Some (s\<lparr>objects := (objects s)(a := None), deleted := a # deleted s\<rparr>)"
proof -
  let ?o = "obj\<lparr>refCount := refCount obj + of_nat n\<rparr>"
  let ?s = "s\<lparr>objects := (objects s)(a \<mapsto> ?o)\<rparr>"
  have "rc_run (Some a) (replicate n Retain @ [Release]) s = rc_run (Some a) [Release] ?s"
    by (subst rc_run_append) (simp only: rc_run_retains [OF live] option.case)
  also have "\<dots> = Some (s\<lparr>objects := (objects s)(a := None), deleted := a # deleted s\<rparr>)"
    using neg by (simp add: release_live [where obj = ?o])
  finally show ?thesis .
qed

lemma release_deleted: "objects s a = None \<Longrightarrow> rc_run (Some a) (Release # xs) s = None"
  by (simp add: release_def RefCounted_release_def)

text \<open>
  Claim C1 as stated, for every \<open>N \<ge> 1\<close>, fails at \<open>N = 2\<^sup>3\<^sup>1 + 1\<close>:
  beyond the range above the count has wrapped. After 2147483649 retains of a fresh
  object the 32-bit counter reads -2147483647; the first release makes it
  -2147483648, which is \<open>\<le> 0\<close>, and deletes the object while 2147483648 releases
  are still to come. The next one reaches a deleted object.
\<close>

theorem overflowed_count_released_early:
  "(1::nat) < 2147483649
   \<and> rc_run (Some 7) (replicate 2147483649 Retain @ replicate 1 Release) fresh_store =
       Some (fresh_store\<lparr>objects := (objects fresh_store)(7 := None),
                         deleted := 7 # deleted fresh_store\<rparr>)
   \<and> rc_run (Some 7) (replicate 2147483649 Retain @ replicate 2147483649 Release) fresh_store = None"
proof -
  let ?gone = "fresh_store\<lparr>objects := (objects fresh_store)(7 := None),
                         deleted := 7 # deleted fresh_store\<rparr>"
  have live: "objects fresh_store 7 = Some RefCounted_new"
    by (simp add: fresh_store_def construct_def)
  have neg: "sint (refCount RefCounted_new + of_nat 2147483649 - 1) \<le> 0"
    by (simp add: RefCounted_new_def)
  have first: "rc_run (Some 7) (replicate 2147483649 Retain @ [Release]) fresh_store = Some ?gone"
    by (rule retain_then_release [OF live neg])
  have one: "replicate 1 Release = [Release]" by simp
  have "(2147483649::nat) = Suc (Suc 2147483647)" by simp
  then have "replicate 2147483649 Release = [Release] @ Release # replicate 2147483647 Release"
    by (simp only: replicate_Suc append_Cons append_Nil)
  then have "replicate 2147483649 Retain @ replicate 2147483649 Release =
             (replicate 2147483649 Retain @ [Release]) @ Release # replicate 2147483647 Release"
    by (simp only: append_assoc)
  then have "rc_run (Some 7) (replicate 2147483649 Retain @ replicate 2147483649 Release) fresh_store =
             rc_run (Some 7) ((replicate 2147483649 Retain @ [Release]) @
                              Release # replicate 2147483647 Release) fresh_store"
    by (rule arg_cong)
  also have "\<dots> = (case rc_run (Some 7) (replicate 2147483649 Retain @ [Release]) fresh_store of
                        None \<Rightarrow> None
                      | Some s' \<Rightarrow> rc_run (Some 7) (Release # replicate 2147483647 Release) s')"
    by (rule rc_run_append)
  also have "\<dots> = rc_run (Some 7) (Release # replicate 2147483647 Release) ?gone"
    by (simp only: first option.case)
  also have "\<dots> = None" by (rule release_deleted) simp
  finally show ?thesis using first by (simp only: one) simp
qed

subsection \<open>One retain, one release\<close>

lemma sint_succ: "sint (c :: int32_t) < 2147483647 \<Longrightarrow> sint (c + 1) = sint c + 1"
proof -
  assume "sint c < 2147483647"
  moreover have "- 2147483648 \<le> sint c" using sint_ge [of c] by simp
  ultimately have "signed_take_bit 31 (sint c + 1) = sint c + 1"
    by (intro signed_take_bit_int_eq_self) simp_all
  then show ?thesis by (simp add: sint_word_ariths)
qed

text \<open>
  Claim C2. Whenever \<open>retain\<close> returns, it returns its argument. On the null
  pointer \<open>retain\<close> and \<open>release\<close> leave the store as it is. On a pointer to an
  object of the store \<open>retain\<close> returns the pointer and adds one to the object's
  counter and changes nothing else; the addition is that of the 32-bit counter, and
  the signed value read from it goes up by one whenever it was below
  \<open>2\<^sup>3\<^sup>1 - 1\<close>. An object as constructed has count 0.
\<close>

theorem retain_returns_its_argument:
  "(\<forall>p s'. retain r s = Some (p, s') \<longrightarrow> p = r)
   \<and> retain None s = Some (None, s)
   \<and> release None s = Some s
   \<and> (\<forall>obj. objects s a = Some obj \<longrightarrow>
         retain (Some a) s =
           Some (Some a, s\<lparr>objects := (objects s)(a \<mapsto> obj\<lparr>refCount := refCount obj + 1\<rparr>)\<rparr>)
         \<and> (sint (refCount obj) < 2147483647 \<longrightarrow>
              sint (refCount (obj\<lparr>refCount := refCount obj + 1\<rparr>)) = sint (refCount obj) + 1))
   \<and> refCount RefCounted_new = 0
   \<and> objects (construct a s) a = Some RefCounted_new"
proof -
  have "p = r" if "retain r s = Some (p, s')" for p s'
    using that by (cases r) (auto simp: retain_def)
  moreover have "retain None s = Some (None, s)" by (simp add: retain_def)
  moreover have "release None s = Some s" by (simp add: release_def)
  moreover have "sint (refCount (obj\<lparr>refCount := refCount obj + 1\<rparr>)) = sint (refCount obj) + 1"
    if "sint (refCount obj) < 2147483647" for obj :: RefCounted
    using that by (simp add: sint_succ)
  moreover have "refCount RefCounted_new = 0" by (simp add: RefCounted_new_def)
  moreover have "objects (construct a s) a = Some RefCounted_new" by (simp add: construct_def)
  ultimately show ?thesis by (simp add: retain_live)
qed

theorem retain_returns_its_argument_witness:
  "retain (Some 7) fresh_store =
     Some (Some 7, fresh_store\<lparr>objects := (objects fresh_store)(7 \<mapsto> \<lparr>refCount = 1\<rparr>)\<rparr>)
   \<and> sint (refCount (RefCounted_new\<lparr>refCount := refCount RefCounted_new + 1\<rparr>)) = 1
   \<and> retain None fresh_store = Some (None, fresh_store)
   \<and> release None fresh_store = Some fresh_store
   \<and> objects fresh_store 7 = Some RefCounted_new"
proof -
  have live: "objects fresh_store 7 = Some RefCounted_new"
    by (simp add: fresh_store_def construct_def)
  have small: "sint (refCount RefCounted_new) < 2147483647" by (simp add: RefCounted_new_def)
  note t = retain_returns_its_argument [of "Some 7" fresh_store 7]
  from t live have "retain (Some 7) fresh_store =
     Some (Some 7, fresh_store\<lparr>objects := (objects fresh_store)(7 \<mapsto>
        RefCounted_new\<lparr>refCount := refCount RefCounted_new + 1\<rparr>)\<rparr>)"
    by blast
  then have r: "retain (Some 7) fresh_store =
     Some (Some 7, fresh_store\<lparr>objects := (objects fresh_store)(7 \<mapsto> \<lparr>refCount = 1\<rparr>)\<rparr>)"
    by (simp add: RefCounted_new_def)
  from t live small
  have "sint (refCount (RefCounted_new\<lparr>refCount := refCount RefCounted_new + 1\<rparr>)) =
          sint (refCount RefCounted_new) + 1"
    by blast
  then have c: "sint (refCount (RefCounted_new\<lparr>refCount := refCount RefCounted_new + 1\<rparr>)) = 1"
    by (simp add: RefCounted_new_def)
  from t have "retain None fresh_store = Some (None, fresh_store)"
    and "release None fresh_store = Some fresh_store" by blast+
  with r c live show ?thesis by blast
qed

text \<open>
  Claim C10. Releasing an object that was constructed and never retained is defined
  and deletes it at once: the decrement takes the count from 0 to -1, and the test
  is \<open>\<le> 0\<close>. In general a release of an object of the store deletes it exactly
  when the decremented count, read as a signed value, is \<open>\<le> 0\<close>, and otherwise
  stores the decremented count.
\<close>

theorem release_of_unretained_object:
  "sint (refCount RefCounted_new - 1) = - 1
   \<and> release (Some a) (construct a s) =
       Some (s\<lparr>objects := (objects s)(a := None), deleted := a # deleted s\<rparr>)
   \<and> (\<forall>obj. objects s a = Some obj \<longrightarrow>
         release (Some a) s =
           (if sint (refCount obj - 1) \<le> 0
            then Some (s\<lparr>objects := (objects s)(a := None), deleted := a # deleted s\<rparr>)
            else Some (s\<lparr>objects := (objects s)(a \<mapsto> obj\<lparr>refCount := refCount obj - 1\<rparr>)\<rparr>)))"
proof -
  have "sint (refCount RefCounted_new - 1) = - 1" by (simp add: RefCounted_new_def)
  moreover have "release (Some a) (construct a s) =
       Some (s\<lparr>objects := (objects s)(a := None), deleted := a # deleted s\<rparr>)"
    by (simp add: release_def RefCounted_release_def construct_def delete_this_def
        RefCounted_new_def)
  ultimately show ?thesis by (simp add: release_live)
qed

theorem release_of_unretained_object_witness:
  "objects fresh_store 7 = Some RefCounted_new
   \<and> sint (refCount RefCounted_new - 1) = - 1
   \<and> release (Some 7) fresh_store =
       Some (fresh_store\<lparr>objects := (objects fresh_store)(7 := None),
                         deleted := 7 # deleted fresh_store\<rparr>)"
proof -
  have live: "objects fresh_store 7 = Some RefCounted_new"
    by (simp add: fresh_store_def construct_def)
  note t = release_of_unretained_object [of 7 fresh_store]
  from t have neg: "sint (refCount RefCounted_new - 1) = - 1" by blast
  from t live have "release (Some 7) fresh_store =
           (if sint (refCount RefCounted_new - 1) \<le> 0
            then Some (fresh_store\<lparr>objects := (objects fresh_store)(7 := None),
                         deleted := 7 # deleted fresh_store\<rparr>)
            else Some (fresh_store\<lparr>objects := (objects fresh_store)(7 \<mapsto>
                         RefCounted_new\<lparr>refCount := refCount RefCounted_new - 1\<rparr>)\<rparr>))"
    by blast
  with neg live show ?thesis by simp
qed

subsection \<open>Handles\<close>

lemma release_handles: "release p s = Some s' \<Longrightarrow> handles s' = handles s"
  by (auto simp: release_def RefCounted_release_def delete_this_def Let_def
      split: option.splits if_splits)

lemma release_frame:
  "release p s = Some s' \<Longrightarrow> p \<noteq> Some a \<Longrightarrow> objects s' a = objects s a"
  by (auto simp: release_def RefCounted_release_def delete_this_def Let_def
      split: option.splits if_splits)

lemma retain_handles: "retain t s = Some (p, s') \<Longrightarrow> handles s' = handles s"
  by (auto simp: retain_def RefCounted_retain_def split: option.splits)

lemma assign_as_retain_release:
  assumes held: "handles s h = Some a"
  shows "assign_ptr h t s =
          (case retain t s of
             None \<Rightarrow> None
           | Some (_, s1) \<Rightarrow> map_option (set_ref h t) (release (Some a) s1))"
proof (cases "retain t s")
  case None
  then show ?thesis by (simp add: assign_ptr_def)
next
  case (Some ps)
  obtain p s1 where ps: "ps = (p, s1)" by (cases ps)
  with Some have "handles s1 = handles s" by (simp add: retain_handles)
  with Some ps held show ?thesis
    by (simp add: assign_ptr_def split: option.splits)
qed

lemma assign_same_pointer:
  assumes held: "handles s h = Some a" and live: "objects s a = Some obj"
  shows "assign_ptr h (Some a) s =
           Some (if 0 < sint (refCount obj) then s
                 else s\<lparr>objects := (objects s)(a := None), deleted := a # deleted s\<rparr>)"
proof -
  let ?o1 = "obj\<lparr>refCount := refCount obj + 1\<rparr>"
  let ?s1 = "s\<lparr>objects := (objects s)(a \<mapsto> ?o1)\<rparr>"
  have live1: "objects ?s1 a = Some ?o1" by simp
  have restored: "?s1\<lparr>objects := (objects ?s1)(a \<mapsto> ?o1\<lparr>refCount := refCount ?o1 - 1\<rparr>)\<rparr> = s"
    using live by (simp add: map_upd_triv)
  have gone: "?s1\<lparr>objects := (objects ?s1)(a := None), deleted := a # deleted ?s1\<rparr> =
              s\<lparr>objects := (objects s)(a := None), deleted := a # deleted s\<rparr>"
    by simp
  have rel: "release (Some a) ?s1 =
               Some (if 0 < sint (refCount obj) then s
                     else s\<lparr>objects := (objects s)(a := None), deleted := a # deleted s\<rparr>)"
    using restored by (simp add: release_live [OF live1] not_less)
  have same: "set_ref h (Some a) s' = s'" if "handles s' = handles s" for s'
    using held that by (simp add: set_ref_def fun_upd_idem)
  show ?thesis
    by (simp add: assign_as_retain_release [OF held] retain_live [OF live] rel same)
qed

lemma assign_other_pointer:
  assumes held: "handles s h = Some a" and live: "objects s a = Some obj"
    and other: "objects s b = Some objb" and neq: "b \<noteq> a"
  shows "assign_ptr h (Some b) s =
           Some (if sint (refCount obj - 1) \<le> 0
                 then s\<lparr>objects := (objects s)(b \<mapsto> objb\<lparr>refCount := refCount objb + 1\<rparr>, a := None),
                        deleted := a # deleted s,
                        handles := (handles s)(h := Some b)\<rparr>
                 else s\<lparr>objects := (objects s)(b \<mapsto> objb\<lparr>refCount := refCount objb + 1\<rparr>,
                                              a \<mapsto> obj\<lparr>refCount := refCount obj - 1\<rparr>),
                        handles := (handles s)(h := Some b)\<rparr>)"
proof -
  let ?s1 = "s\<lparr>objects := (objects s)(b \<mapsto> objb\<lparr>refCount := refCount objb + 1\<rparr>)\<rparr>"
  have live1: "objects ?s1 a = Some obj" using live neq by simp
  show ?thesis
    using neq
    by (simp add: assign_as_retain_release [OF held] retain_live [OF other]
        release_live [OF live1] set_ref_def)
qed

text \<open>
  Claim C3, with the count in range. Handle \<open>h\<close> holds the object at \<open>a\<close>, which is
  in the store. Assigning any pointer \<open>t\<close> to \<open>h\<close>, and copy-assigning any handle
  \<open>r\<close> to \<open>h\<close>, retains the new pointer first and releases the object \<open>h\<close> held
  second, in the store the retain left, and then stores the new pointer. So
  assigning \<open>h\<close> the pointer it already holds, directly or by copy-assignment from
  any handle holding the same object (\<open>h\<close> itself included), gives back the very
  same store whenever the count, read as a signed value, is positive: the object is
  alive and its count is what it was, also at count 1. When the counter has wrapped
  to a value that is not positive, the release of the self-assignment deletes the
  object. Copy-assigning from a handle of another object retains that object,
  releases the old one (deleting it when its count drops to zero) and makes \<open>h\<close>
  hold the new one; copy-assigning from a null handle releases the old object.
  Copy-constructing a handle \<open>d\<close> from \<open>h\<close> retains the object and makes \<open>d\<close>
  hold it.
\<close>

theorem self_assignment_keeps_object:
  assumes held: "handles s h = Some a" and live: "objects s a = Some obj"
  shows "(\<forall>t. assign_ptr h t s =
                (case retain t s of
                   None \<Rightarrow> None
                 | Some (_, s1) \<Rightarrow> map_option (set_ref h t) (release (Some a) s1)))
       \<and> (\<forall>r. assign_copy h r s =
                (case retain (handles s r) s of
                   None \<Rightarrow> None
                 | Some (_, s1) \<Rightarrow> map_option (set_ref h (handles s r)) (release (Some a) s1)))
       \<and> assign_ptr h (Some a) s =
           Some (if 0 < sint (refCount obj) then s
                 else s\<lparr>objects := (objects s)(a := None), deleted := a # deleted s\<rparr>)
       \<and> (\<forall>r. handles s r = Some a \<longrightarrow>
             assign_copy h r s =
               Some (if 0 < sint (refCount obj) then s
                     else s\<lparr>objects := (objects s)(a := None), deleted := a # deleted s\<rparr>))
       \<and> (\<forall>r b objb. handles s r = Some b \<longrightarrow> b \<noteq> a \<longrightarrow> objects s b = Some objb \<longrightarrow>
             assign_copy h r s =
               Some (if sint (refCount obj - 1) \<le> 0
                     then s\<lparr>objects := (objects s)(b \<mapsto> objb\<lparr>refCount := refCount objb + 1\<rparr>,
                                                  a := None),
                            deleted := a # deleted s,
                            handles := (handles s)(h := Some b)\<rparr>
                     else s\<lparr>objects := (objects s)(b \<mapsto> objb\<lparr>refCount := refCount objb + 1\<rparr>,
                                                  a \<mapsto> obj\<lparr>refCount := refCount obj - 1\<rparr>),
                            handles := (handles s)(h := Some b)\<rparr>))
       \<and> (\<forall>r. handles s r = None \<longrightarrow>
             assign_copy h r s = map_option (set_ref h None) (release (Some a) s))
       \<and> (\<forall>d. Retained_copy d h s =
                Some (s\<lparr>objects := (objects s)(a \<mapsto> obj\<lparr>refCount := refCount obj + 1\<rparr>),
                        handles := (handles s)(d := Some a)\<rparr>))"
proof (intro conjI allI impI)
  fix t
  show "assign_ptr h t s =
          (case retain t s of
             None \<Rightarrow> None
           | Some (_, s1) \<Rightarrow> map_option (set_ref h t) (release (Some a) s1))"
    by (rule assign_as_retain_release [OF held])
next
  fix r
  show "assign_copy h r s =
          (case retain (handles s r) s of
             None \<Rightarrow> None
           | Some (_, s1) \<Rightarrow> map_option (set_ref h (handles s r)) (release (Some a) s1))"
    unfolding assign_copy_def by (rule assign_as_retain_release [OF held])
next
  show "assign_ptr h (Some a) s =
           Some (if 0 < sint (refCount obj) then s
                 else s\<lparr>objects := (objects s)(a := None), deleted := a # deleted s\<rparr>)"
    by (rule assign_same_pointer [OF held live])
next
  fix r assume r: "handles s r = Some a"
  show "assign_copy h r s =
               Some (if 0 < sint (refCount obj) then s
                     else s\<lparr>objects := (objects s)(a := None), deleted := a # deleted s\<rparr>)"
    unfolding assign_copy_def r by (rule assign_same_pointer [OF held live])
next
  fix r b objb
  assume r: "handles s r = Some b" and neq: "b \<noteq> a" and other: "objects s b = Some objb"
  show "assign_copy h r s =
               Some (if sint (refCount obj - 1) \<le> 0
                     then s\<lparr>objects := (objects s)(b \<mapsto> objb\<lparr>refCount := refCount objb + 1\<rparr>,
                                                  a := None),
                            deleted := a # deleted s,
                            handles := (handles s)(h := Some b)\<rparr>
                     else s\<lparr>objects := (objects s)(b \<mapsto> objb\<lparr>refCount := refCount objb + 1\<rparr>,
                                                  a \<mapsto> obj\<lparr>refCount := refCount obj - 1\<rparr>),
                            handles := (handles s)(h := Some b)\<rparr>)"
    unfolding assign_copy_def r by (rule assign_other_pointer [OF held live other neq])
next
  fix r assume "handles s r = None"
  then show "assign_copy h r s = map_option (set_ref h None) (release (Some a) s)"
    by (simp add: assign_copy_def assign_as_retain_release [OF held] retain_def)
next
  fix d
  show "Retained_copy d h s =
          Some (s\<lparr>objects := (objects s)(a \<mapsto> obj\<lparr>refCount := refCount obj + 1\<rparr>),
                  handles := (handles s)(d := Some a)\<rparr>)"
    by (simp add: Retained_copy_def held retain_live [OF live] set_ref_def)
qed

theorem self_assignment_keeps_object_witness:
  "Retained_ptr 0 (Some 7) fresh_store = Some one_owner
   \<and> handles one_owner 0 = Some 7
   \<and> objects one_owner 7 = Some \<lparr>refCount = 1\<rparr>
   \<and> assign_ptr 0 (Some 7) one_owner = Some one_owner
   \<and> assign_copy 0 0 one_owner = Some one_owner
   \<and> Retained_copy 1 0 one_owner = Some two_owners
   \<and> assign_copy 0 1 two_objects =
       Some \<lparr>objects = [8 \<mapsto> \<lparr>refCount = 2\<rparr>], deleted = [7],
             handles = (\<lambda>_. None)(0 := Some 8, 1 := Some 8)\<rparr>"
proof -
  have built: "Retained_ptr 0 (Some 7) fresh_store = Some one_owner"
    by (simp add: Retained_ptr_def retain_def RefCounted_retain_def fresh_store_def
        construct_def empty_store_def RefCounted_new_def set_ref_def one_owner_def)
  have held: "handles one_owner 0 = Some 7" by (simp add: one_owner_def)
  have live: "objects one_owner 7 = Some \<lparr>refCount = 1\<rparr>" by (simp add: one_owner_def)
  have pos: "0 < sint (refCount \<lparr>refCount = 1\<rparr>)" by simp
  note t = self_assignment_keeps_object [OF held live]
  from t have "assign_ptr 0 (Some 7) one_owner =
      Some (if 0 < sint (refCount \<lparr>refCount = 1\<rparr>) then one_owner
            else one_owner\<lparr>objects := (objects one_owner)(7 := None),
                            deleted := 7 # deleted one_owner\<rparr>)"
    by blast
  then have a1: "assign_ptr 0 (Some 7) one_owner = Some one_owner" by simp
  from t held have "assign_copy 0 0 one_owner =
      Some (if 0 < sint (refCount \<lparr>refCount = 1\<rparr>) then one_owner
            else one_owner\<lparr>objects := (objects one_owner)(7 := None),
                            deleted := 7 # deleted one_owner\<rparr>)"
    by blast
  then have a2: "assign_copy 0 0 one_owner = Some one_owner" by simp
  from t have "Retained_copy 1 0 one_owner =
     Some (one_owner\<lparr>objects := (objects one_owner)(7 \<mapsto> \<lparr>refCount = 1\<rparr>\<lparr>refCount := refCount \<lparr>refCount = 1\<rparr> + 1\<rparr>),
                     handles := (handles one_owner)(1 := Some 7)\<rparr>)"
    by blast
  then have a3: "Retained_copy 1 0 one_owner = Some two_owners"
    by (simp add: one_owner_def two_owners_def)
  have held2: "handles two_objects 0 = Some 7" and live2: "objects two_objects 7 = Some \<lparr>refCount = 1\<rparr>"
    and src2: "handles two_objects 1 = Some 8" and obj2: "objects two_objects 8 = Some \<lparr>refCount = 1\<rparr>"
    and neq2: "(8::nat) \<noteq> 7"
    by (simp_all add: two_objects_def)
  from self_assignment_keeps_object [OF held2 live2] src2 neq2 obj2
  have "assign_copy 0 1 two_objects =
               Some (if sint (refCount \<lparr>refCount = 1\<rparr> - 1) \<le> 0
                     then two_objects\<lparr>objects := (objects two_objects)(8 \<mapsto> \<lparr>refCount = 1\<rparr>\<lparr>refCount := refCount \<lparr>refCount = 1\<rparr> + 1\<rparr>,
                                                  7 := None),
                            deleted := 7 # deleted two_objects,
                            handles := (handles two_objects)(0 := Some 8)\<rparr>
                     else two_objects\<lparr>objects := (objects two_objects)(8 \<mapsto> \<lparr>refCount = 1\<rparr>\<lparr>refCount := refCount \<lparr>refCount = 1\<rparr> + 1\<rparr>,
                                                  7 \<mapsto> \<lparr>refCount = 1\<rparr>\<lparr>refCount := refCount \<lparr>refCount = 1\<rparr> - 1\<rparr>),
                            handles := (handles two_objects)(0 := Some 8)\<rparr>)"
    by blast
  then have a4: "assign_copy 0 1 two_objects =
       Some \<lparr>objects = [8 \<mapsto> \<lparr>refCount = 2\<rparr>], deleted = [7],
             handles = (\<lambda>_. None)(0 := Some 8, 1 := Some 8)\<rparr>"
    by (simp add: two_objects_def fun_upd_twist)
  from built held live a1 a2 a3 a4 show ?thesis by blast
qed

text \<open>
  Claim C3 as stated, for every handle holding an object, fails once the counter
  has wrapped. Handle 0 holds the object at 7 with count 1; after 2147483647 more
  retains the counter reads -2147483648 and the object is still there. Assigning
  handle 0 the pointer it holds, or copy-assigning handle 0 to itself, retains
  (-2147483647) and releases (-2147483648, which is \<open>\<le> 0\<close>): the object is
  deleted.
\<close>

theorem self_assignment_at_wrapped_count:
  "rc_run (Some 7) (replicate 2147483647 Retain) one_owner = Some wrapped_owner
   \<and> get 0 wrapped_owner = Some 7
   \<and> map_option (sint \<circ> refCount) (objects wrapped_owner 7) = Some (- 2147483648)
   \<and> assign_ptr 0 (Some 7) wrapped_owner =
       Some (wrapped_owner\<lparr>objects := (objects wrapped_owner)(7 := None), deleted := [7]\<rparr>)
   \<and> assign_copy 0 0 wrapped_owner =
       Some (wrapped_owner\<lparr>objects := (objects wrapped_owner)(7 := None), deleted := [7]\<rparr>)"
proof -
  have live: "objects one_owner 7 = Some \<lparr>refCount = 1\<rparr>" by (simp add: one_owner_def)
  have "rc_run (Some 7) (replicate 2147483647 Retain) one_owner =
          Some (one_owner\<lparr>objects := (objects one_owner)(7 \<mapsto>
                  \<lparr>refCount = 1\<rparr>\<lparr>refCount := refCount \<lparr>refCount = 1\<rparr> + of_nat 2147483647\<rparr>)\<rparr>)"
    by (rule rc_run_retains [OF live])
  then have reach: "rc_run (Some 7) (replicate 2147483647 Retain) one_owner = Some wrapped_owner"
    by (simp add: one_owner_def wrapped_owner_def)
  have a: "assign_ptr 0 (Some 7) wrapped_owner =
       Some (wrapped_owner\<lparr>objects := (objects wrapped_owner)(7 := None), deleted := [7]\<rparr>)"
    by (simp add: assign_ptr_def retain_def RefCounted_retain_def release_def
        RefCounted_release_def delete_this_def set_ref_def wrapped_owner_def)
  have b: "assign_copy 0 0 wrapped_owner = assign_ptr 0 (Some 7) wrapped_owner"
    by (simp add: assign_copy_def wrapped_owner_def)
  show ?thesis using reach a b by (simp add: get_def wrapped_owner_def)
qed

text \<open>
  Claim C4, for two distinct handles. Handle \<open>src\<close> holds the object at \<open>a\<close>.
  Move-constructing \<open>d\<close> from \<open>src\<close> leaves \<open>d\<close> holding the object and \<open>src\<close>
  null, and touches no object and no count. Move-assigning \<open>src\<close> to \<open>d\<close> is the
  release of whatever \<open>d\<close> held followed by the same transfer of the pointer:
  afterwards \<open>d\<close> holds the object and \<open>src\<close> is null; when \<open>d\<close> held null or a
  different object, the moved object's entry in the store is unchanged; when \<open>d\<close>
  held the same object, that reference of \<open>d\<close> is released like any other and the
  count goes down by one. Destroying a handle is the release of what it holds, and
  does nothing when it holds null.
\<close>

theorem move_transfers_ownership:
  assumes held: "handles s src = Some a" and neq: "d \<noteq> src"
  shows "Retained_move d src s = s\<lparr>handles := (handles s)(d := Some a, src := None)\<rparr>
       \<and> get d (Retained_move d src s) = Some a
       \<and> get src (Retained_move d src s) = None
       \<and> objects (Retained_move d src s) = objects s
       \<and> deleted (Retained_move d src s) = deleted s
       \<and> assign_move d src s =
           map_option (\<lambda>s1. s1\<lparr>handles := (handles s)(d := Some a, src := None)\<rparr>)
             (release (handles s d) s)
       \<and> (\<forall>s'. assign_move d src s = Some s' \<longrightarrow>
               get d s' = Some a \<and> get src s' = None
               \<and> (handles s d \<noteq> Some a \<longrightarrow> objects s' a = objects s a))
       \<and> (\<forall>obj. objects s a = Some obj \<longrightarrow> handles s d = Some a \<longrightarrow>
               0 < sint (refCount obj - 1) \<longrightarrow>
               assign_move d src s =
                 Some (s\<lparr>objects := (objects s)(a \<mapsto> obj\<lparr>refCount := refCount obj - 1\<rparr>),
                         handles := (handles s)(d := Some a, src := None)\<rparr>))
       \<and> Retained_destroy h s = release (handles s h) s
       \<and> (handles s h = None \<longrightarrow> Retained_destroy h s = Some s)"
proof -
  have mv: "Retained_move d src s = s\<lparr>handles := (handles s)(d := Some a, src := None)\<rparr>"
    using held by (simp add: Retained_move_def set_ref_def)
  have mv_d: "get d (Retained_move d src s) = Some a"
    and mv_src: "get src (Retained_move d src s) = None"
    and mv_objects: "objects (Retained_move d src s) = objects s"
    and mv_deleted: "deleted (Retained_move d src s) = deleted s"
    using neq by (simp_all add: mv get_def)
  have am: "assign_move d src s =
           map_option (\<lambda>s1. s1\<lparr>handles := (handles s)(d := Some a, src := None)\<rparr>)
             (release (handles s d) s)"
  proof (cases "release (handles s d) s")
    case None
    then show ?thesis by (simp add: assign_move_def)
  next
    case (Some s1)
    then have "handles s1 = handles s" by (rule release_handles)
    with Some held show ?thesis by (simp add: assign_move_def set_ref_def)
  qed
  have after: "get d s' = Some a \<and> get src s' = None
               \<and> (handles s d \<noteq> Some a \<longrightarrow> objects s' a = objects s a)"
    if "assign_move d src s = Some s'" for s'
  proof -
    from that am obtain s1 where s1: "release (handles s d) s = Some s1"
      and s': "s' = s1\<lparr>handles := (handles s)(d := Some a, src := None)\<rparr>"
      by auto
    have "objects s' a = objects s a" if "handles s d \<noteq> Some a"
      using release_frame [OF s1 that] s' by simp
    with s' neq show ?thesis by (simp add: get_def)
  qed
  have shared: "assign_move d src s =
                 Some (s\<lparr>objects := (objects s)(a \<mapsto> obj\<lparr>refCount := refCount obj - 1\<rparr>),
                         handles := (handles s)(d := Some a, src := None)\<rparr>)"
    if "objects s a = Some obj" "handles s d = Some a" "0 < sint (refCount obj - 1)" for obj
    using that by (simp add: am release_live [OF that(1)])
  have ds: "Retained_destroy h s = release (handles s h) s" by (simp add: Retained_destroy_def)
  have dn: "Retained_destroy h s = Some s" if "handles s h = None"
    using that by (simp add: Retained_destroy_def release_def)
  from mv mv_d mv_src mv_objects mv_deleted am after shared ds dn show ?thesis by blast
qed

theorem move_transfers_ownership_witness:
  "get 0 one_owner = Some 7
   \<and> get 1 (Retained_move 1 0 one_owner) = Some 7
   \<and> get 0 (Retained_move 1 0 one_owner) = None
   \<and> objects (Retained_move 1 0 one_owner) = objects one_owner
   \<and> assign_move 1 0 one_owner =
       Some (one_owner\<lparr>handles := (handles one_owner)(1 := Some 7, 0 := None)\<rparr>)
   \<and> Retained_destroy 1 one_owner = Some one_owner
   \<and> assign_move 1 0 two_owners =
       Some (two_owners\<lparr>objects := (objects two_owners)(7 \<mapsto> \<lparr>refCount = 1\<rparr>),
                        handles := (handles two_owners)(1 := Some 7, 0 := None)\<rparr>)"
proof -
  have held: "handles one_owner 0 = Some 7" by (simp add: one_owner_def)
  have neq: "(1::nat) \<noteq> 0" by simp
  have null: "handles one_owner 1 = None" by (simp add: one_owner_def)
  note t = move_transfers_ownership [OF held neq, of 1]
  from t have m: "get 1 (Retained_move 1 0 one_owner) = Some 7"
      "get 0 (Retained_move 1 0 one_owner) = None"
      "objects (Retained_move 1 0 one_owner) = objects one_owner"
    by blast+
  from t have "assign_move 1 0 one_owner =
           map_option (\<lambda>s1. s1\<lparr>handles := (handles one_owner)(1 := Some 7, 0 := None)\<rparr>)
             (release (handles one_owner 1) one_owner)"
    by blast
  then have a: "assign_move 1 0 one_owner =
       Some (one_owner\<lparr>handles := (handles one_owner)(1 := Some 7, 0 := None)\<rparr>)"
    using null by (simp add: release_def)
  from t null have d: "Retained_destroy 1 one_owner = Some one_owner" by blast
  have held2: "handles two_owners 0 = Some 7" and co: "handles two_owners 1 = Some 7"
    and live2: "objects two_owners 7 = Some \<lparr>refCount = 2\<rparr>"
    and pos2: "0 < sint (refCount \<lparr>refCount = 2\<rparr> - 1)"
    by (simp_all add: two_owners_def)
  from move_transfers_ownership [OF held2 neq, of 1] live2 co pos2
  have "assign_move 1 0 two_owners =
       Some (two_owners\<lparr>objects := (objects two_owners)(7 \<mapsto>
                \<lparr>refCount = 2\<rparr>\<lparr>refCount := refCount \<lparr>refCount = 2\<rparr> - 1\<rparr>),
                        handles := (handles two_owners)(1 := Some 7, 0 := None)\<rparr>)"
    by blast
  then have a2: "assign_move 1 0 two_owners =
       Some (two_owners\<lparr>objects := (objects two_owners)(7 \<mapsto> \<lparr>refCount = 1\<rparr>),
                        handles := (handles two_owners)(1 := Some 7, 0 := None)\<rparr>)"
    by simp
  from held m a d a2 show ?thesis by (simp add: get_def)
qed

text \<open>
  Claim C4 as stated has the moved object's count unchanged whatever the target
  held. Two handles of one object, count 2: after move-assigning handle 0 to
  handle 1, handle 1 holds the object, handle 0 is null and the count is 1, not 2.
\<close>

theorem move_assign_onto_co_owner:
  "Retained_copy 1 0 one_owner = Some two_owners
   \<and> get 0 two_owners = Some 7
   \<and> get 1 two_owners = Some 7
   \<and> map_option refCount (objects two_owners 7) = Some 2
   \<and> map_option (\<lambda>s'. (get 1 s', get 0 s', map_option refCount (objects s' 7)))
        (assign_move 1 0 two_owners) = Some (Some 7, None, Some 1)"
  by (simp add: Retained_copy_def retain_def RefCounted_retain_def set_ref_def get_def
      assign_move_def release_def RefCounted_release_def delete_this_def
      one_owner_def two_owners_def)

section \<open>Counting instances\<close>

text \<open>
  As long as no instance is copied the counter follows the number of live
  instances, in the arithmetic of the 32-bit counter.
\<close>

lemma live_instances_shift: "live_instances es n = live_instances es 0 + n"
proof (induction es arbitrary: n)
  case Nil
  then show ?case by simp
next
  case (Cons e es)
  show ?case
  proof (cases e)
    case Construct
    then show ?thesis using Cons.IH [of "n + 1"] Cons.IH [of 1] by simp
  next
    case CopyConstruct
    then show ?thesis using Cons.IH [of "n + 1"] Cons.IH [of 1] by simp
  next
    case Destroy
    then show ?thesis using Cons.IH [of "n - 1"] Cons.IH [of "- 1"] by simp
  qed
qed

lemma ic_run_without_copies:
  "CopyConstruct \<notin> set es \<Longrightarrow> ic_run es g = g + of_int (live_instances es 0)"
proof (induction es arbitrary: g)
  case Nil
  then show ?case by simp
next
  case (Cons e es)
  then have IH: "ic_run es g' = g' + of_int (live_instances es 0)" for g' by simp
  show ?case
  proof (cases e)
    case Construct
    then show ?thesis
      using IH [of "g + 1"] live_instances_shift [of es 1]
      by (simp add: InstanceCounted_ctor_def)
  next
    case CopyConstruct
    with Cons.prems show ?thesis by simp
  next
    case Destroy
    then show ?thesis
      using IH [of "g - 1"] live_instances_shift [of es "- 1"]
      by (simp add: InstanceCounted_dtor_def)
  qed
qed

text \<open>
  Claim C6 asks that the counter equal the number of live instances at every
  point, copies included. The code at the sequence "construct, copy-construct,
  destroy, destroy": after the copy two instances are alive and the counter reads
  1; after both destructors none is alive and the counter reads -1, not the 0 it
  started from.
\<close>

theorem copy_is_not_counted:
  "sint (ic_run [Construct, CopyConstruct] 0) = 1
   \<and> live_instances [Construct, CopyConstruct] 0 = 2
   \<and> sint (ic_run [Construct, CopyConstruct, Destroy, Destroy] 0) = - 1
   \<and> live_instances [Construct, CopyConstruct, Destroy, Destroy] 0 = 0"
  by (simp add: InstanceCounted_ctor_def InstanceCounted_copy_ctor_def InstanceCounted_dtor_def)

section \<open>Addresses, registry and bindings\<close>

text \<open>
  Claim C7. Converting a host-facing address to the internal value and back gives
  the same struct: scheme, host, port and path. The conversion taking a database
  name agrees with the plain one on scheme, host and port and differs in the path
  alone, which is the one built from the struct's path and the name.
\<close>

theorem address_round_trip:
  "c4AddressFrom (addressFrom A) = A
   \<and> Address.scheme (addressFrom_named db_path A name) = Address.scheme (addressFrom A)
   \<and> Address.hostname (addressFrom_named db_path A name) = Address.hostname (addressFrom A)
   \<and> Address.port (addressFrom_named db_path A name) = Address.port (addressFrom A)
   \<and> Address.path (addressFrom_named db_path A name) = db_path (C4Address.path A) name
   \<and> Address.scheme (addressFrom A) = C4Address.scheme A
   \<and> Address.hostname (addressFrom A) = C4Address.hostname A
   \<and> Address.port (addressFrom A) = C4Address.port A
   \<and> Address.path (addressFrom A) = C4Address.path A"
  by (simp add: c4AddressFrom_def addressFrom_def addressFrom_named_def)

text \<open>
  Claim C8. Registering a table with one of the four callback slots empty returns
  the configuration error and leaves the registry as it was, so that the active
  table (the one registered before, or the default installed on first use) is the
  same as before. Registering a complete table succeeds and makes it the active
  table.
\<close>

theorem registerFactory_validates:
  "registerFactory factory reg =
     (if open_cb factory = None \<or> send_cb factory = None
         \<or> completedReceive_cb factory = None \<or> close_cb factory = None
      then (Inl ConfigurationError, reg) else (Inr (), Some factory))
   \<and> fst (registeredFactory dflt (snd (registerFactory factory reg))) =
     (if open_cb factory = None \<or> send_cb factory = None
         \<or> completedReceive_cb factory = None \<or> close_cb factory = None
      then fst (registeredFactory dflt reg) else factory)"
  by (simp add: registerFactory_def validateFactory_def registeredFactory_def
      split: option.splits)

theorem registerFactory_validates_witness:
  "registerFactory (example_factory\<lparr>send_cb := None\<rparr>) None = (Inl ConfigurationError, None)
   \<and> fst (registeredFactory example_default (snd (registerFactory (example_factory\<lparr>send_cb := None\<rparr>) None))) = example_default
   \<and> registerFactory (example_factory\<lparr>close_cb := None\<rparr>) (Some example_factory) =
       (Inl ConfigurationError, Some example_factory)
   \<and> registerFactory example_factory None = (Inr (), Some example_factory)"
proof -
  have a: "send_cb (example_factory\<lparr>send_cb := None\<rparr>) = None" by simp
  have b: "close_cb (example_factory\<lparr>close_cb := None\<rparr>) = None" by simp
  have c: "\<not> (open_cb example_factory = None \<or> send_cb example_factory = None
         \<or> completedReceive_cb example_factory = None \<or> close_cb example_factory = None)"
    by (simp add: example_factory_def)
  from registerFactory_validates [of "example_factory\<lparr>send_cb := None\<rparr>" None example_default] a
  have 1: "registerFactory (example_factory\<lparr>send_cb := None\<rparr>) None = (Inl ConfigurationError, None)"
    and 2: "fst (registeredFactory example_default (snd (registerFactory (example_factory\<lparr>send_cb := None\<rparr>) None))) =
       fst (registeredFactory example_default None)"
    by simp_all
  from registerFactory_validates [of "example_factory\<lparr>close_cb := None\<rparr>" "Some example_factory" example_default] b
  have 3: "registerFactory (example_factory\<lparr>close_cb := None\<rparr>) (Some example_factory) =
       (Inl ConfigurationError, Some example_factory)"
    by simp
  from registerFactory_validates [of example_factory None example_default] c
  have 4: "registerFactory example_factory None = (Inr (), Some example_factory)"
    by simp
  from 1 2 3 4 show ?thesis by (simp add: registeredFactory_def)
qed






















end
